theory Spec2Isabelle
  imports Complex_Main "HOL-Library.Sublist"
begin

section \<open>The EDU formula (edu_formula.py)\<close>

text \<open>
  Python floats are modelled as reals, Python exceptions as the left summand of a sum type.
  The only exception the formula raises is \<open>ValueError\<close>, with its message. The engine can
  also let an exception of \<open>subprocess.run\<close> through: an \<open>OSError\<close> (which
  \<open>FileNotFoundError\<close> and \<open>PermissionError\<close> are) or a \<open>ValueError\<close>.
\<close>

datatype error = ValueError string | OSError string

subsection \<open>EDUConstants\<close>

definition NORMALIZATION_FACTOR :: real where
  "NORMALIZATION_FACTOR = 255"

definition SCALING_CONSTANT :: real where
  "SCALING_CONSTANT = 406.4"

text \<open>The dictionary of neural bands, in insertion order (the order in which Python iterates it).\<close>

definition NEURAL_BANDS :: "(string \<times> real \<times> real) list" where
  "NEURAL_BANDS =
     [(''delta'', 0.5, 4), (''theta'', 4, 8), (''alpha'', 8, 13),
      (''beta'', 13, 30), (''gamma'', 30, 100)]"

subsection \<open>EDUFormula.calculate\<close>

definition calculate :: "real \<Rightarrow> real \<Rightarrow> error + real \<times> real" where
  "calculate A X =
     (if X \<le> 0 then Inl (ValueError ''X must be positive'')
      else if A < 0 then Inl (ValueError ''A must be non-negative'')
      else
        let A' = min A NORMALIZATION_FACTOR;
            modulation = (A' / NORMALIZATION_FACTOR) * pi;
            scaling = SCALING_CONSTANT / X
        in Inr (modulation, scaling))"

definition calculate_combined :: "real \<Rightarrow> real \<Rightarrow> error + real" where
  "calculate_combined A X =
     (case calculate A X of
        Inl e \<Rightarrow> Inl e
      | Inr (modulation, scaling) \<Rightarrow> Inr (modulation * scaling))"

subsection \<open>EDUFormula.calculate_batch\<close>



subsection \<open>EDUFormula.calculate_numpy\<close>



subsection \<open>EDUFormula._classify_neural_band\<close>

fun classify_loop :: "(string \<times> real \<times> real) list \<Rightarrow> real \<Rightarrow> string" where
  "classify_loop [] frequency = ''unknown''"
| "classify_loop ((band, low, high) # rest) frequency =
     (if low \<le> frequency \<and> frequency < high then band else classify_loop rest frequency)"

definition classify_neural_band :: "real \<Rightarrow> string" where
  "classify_neural_band frequency = classify_loop NEURAL_BANDS frequency"

section \<open>Python built-ins used by the engine\<close>

text \<open>
  Strings are lists of characters; a character stands for the code point of the same
  number (0 to 255). \<open>str.split()\<close> cuts at runs of whitespace and yields no empty word,
  \<open>str.lower()\<close> maps every upper-case letter to its lower-case one, \<open>str.strip()\<close>
  removes whitespace at both ends, \<open>int(x)\<close> truncates towards zero.
\<close>

definition is_space :: "char \<Rightarrow> bool" where
  "is_space c =
     (let n = (of_char c :: nat)
      in (9 \<le> n \<and> n \<le> 13) \<or> (28 \<le> n \<and> n \<le> 32) \<or> n = 133 \<or> n = 160)"

definition lower_char :: "char \<Rightarrow> char" where
  "lower_char c =
     (let n = (of_char c :: nat)
      in if (65 \<le> n \<and> n \<le> 90) \<or> (192 \<le> n \<and> n \<le> 222 \<and> n \<noteq> 215)
         then char_of (n + 32) else c)"

definition str_lower :: "string \<Rightarrow> string" where
  "str_lower s = map lower_char s"

fun split_words :: "string \<Rightarrow> string \<Rightarrow> string list" where
  "split_words [] word = (if word = [] then [] else [word])"
| "split_words (c # cs) word =
     (if is_space c
      then (if word = [] then split_words cs [] else word # split_words cs [])
      else split_words cs (word @ [c]))"

definition str_split :: "string \<Rightarrow> string list" where
  "str_split s = split_words s []"

definition str_strip :: "string \<Rightarrow> string" where
  "str_strip s = rev (dropWhile is_space (rev (dropWhile is_space s)))"

definition py_int :: "real \<Rightarrow> int" where
  "py_int x = (if 0 \<le> x then \<lfloor>x\<rfloor> else \<lceil>x\<rceil>)"

section \<open>The decision engine (edu_ai_core.py)\<close>

subsection \<open>Data\<close>

datatype stage = nascent | developing | mature | transcendent

datatype cognitive = DEEP_CONTEMPLATION | ANALYTICAL_THINKING | INTUITIVE_RESPONSE

datatype depth = TRANSCENDENT | DEEP | MODERATE | SURFACE

text \<open>
  A response is kept as the values its text is built from: the templated response embeds
  the level, the depth multiplier, the creativity boost, the interaction count, the
  stimulus and the stage; a backend response is the cleaned output of the backend,
  followed by a signature (stage and interaction number) or not.
\<close>

datatype response_text =
    PureEduResponse real real real int string stage
  | BackendResponse string "(stage \<times> int) option"

datatype response_result =
    is_success: ResponseOk (response: response_text) (method_used: string)
  | ResponseFailed (error: string) (method_used: string)

text \<open>
  The memory collaborator (\<open>core.fractal_memory\<close>) is external. The engine's handle on it
  is modelled by the list of calls the engine has made to it; its replies are inputs.
\<close>

datatype memory_call =
    GetMemoryStats
  | GetEnhancedResponseSuggestions string
  | ProcessInteraction string response_text bool
  | OptimizeMemory

record memory_stats =
  stat_total_interactions :: "int option"
  stat_avg_knowledge_weight :: "real option"

record memory_insights =
  confidence :: real

record learning_result =
  knowledge_growth :: real

record backend_command =
  cmd_executable :: string
  cmd_model :: string
  cmd_prompt_level :: real
  cmd_prompt_stimulus :: string
  cmd_n :: int
  cmd_temp :: real
  cmd_top_k :: int
  cmd_top_p :: real

text \<open>
  What \<open>subprocess.run\<close> with a timeout can do: return a completed process (exit code,
  standard output, standard error), raise \<open>TimeoutExpired\<close>, or raise another exception
  (the executable cannot be started, an argument holds a NUL character).
\<close>

datatype run_outcome =
    CompletedProcess int string string
  | TimeoutExpired
  | RunRaised error

text \<open>What the world answers during one call of \<open>think\<close>.\<close>

record environment =
  enhanced_response_suggestions :: memory_insights
  path_exists :: "string \<Rightarrow> bool"
  subprocess_run :: "backend_command \<Rightarrow> run_outcome"
  process_interaction :: learning_result
  memory_stats_reply :: memory_stats

record EDUAI =
  fractal_memory :: "memory_call list"
  backend_path :: "string option"
  llama_cpp_path :: string
  consciousness_level :: real
  creativity_factor :: real
  learning_rate :: real
  response_depth :: string
  sessions_completed :: int
  total_interactions :: int
  knowledge_evolution_stage :: stage

record analysis =
  edu_consciousness_factor :: real
  cognitive_mode :: cognitive
  complexity_level :: string
  emotion_context :: "(string \<times> real) list"
  creativity_requirement :: real
  processing_depth :: depth

record strategy =
  max_tokens :: int
  temperature :: real
  top_k :: int
  top_p :: real
  creativity_boost :: real
  depth_multiplier :: real

record thought =
  out_stimulus :: string
  out_response :: response_text
  out_consciousness_level :: real
  out_evolution_stage :: stage
  out_edu_analysis :: analysis
  out_memory_confidence :: real
  out_learning_outcome :: learning_result
  out_intelligence_growth :: real

datatype think_output = Failed response_result | Thought thought

subsection \<open>Construction\<close>

definition stats_total_interactions :: "memory_stats \<Rightarrow> int" where
  "stats_total_interactions stats =
     (case stat_total_interactions stats of None \<Rightarrow> 0 | Some n \<Rightarrow> n)"

definition stats_avg_knowledge_weight :: "memory_stats \<Rightarrow> real" where
  "stats_avg_knowledge_weight stats =
     (case stat_avg_knowledge_weight stats of None \<Rightarrow> 1.0 | Some w \<Rightarrow> w)"

definition initialize_consciousness :: "EDUAI \<Rightarrow> memory_stats \<Rightarrow> EDUAI" where
  "initialize_consciousness self0 stats =
     (let self = self0\<lparr>fractal_memory := fractal_memory self0 @ [GetMemoryStats],
                       total_interactions := stats_total_interactions stats\<rparr>
      in if total_interactions self < 10
         then self\<lparr>knowledge_evolution_stage := nascent, consciousness_level := 1.0\<rparr>
         else if total_interactions self < 100
         then self\<lparr>knowledge_evolution_stage := developing, consciousness_level := 1.5\<rparr>
         else if total_interactions self < 1000
         then self\<lparr>knowledge_evolution_stage := mature, consciousness_level := 2.0\<rparr>
         else self\<lparr>knowledge_evolution_stage := transcendent, consciousness_level := 3.0\<rparr>)"

definition EDUAI_init :: "string option \<Rightarrow> memory_stats \<Rightarrow> EDUAI" where
  "EDUAI_init model_backend_path stats =
     initialize_consciousness
       \<lparr>fractal_memory = [],
        backend_path = model_backend_path,
        llama_cpp_path = ''/data/data/com.termux/files/home/llama.cpp'',
        consciousness_level = 1.0,
        creativity_factor = 0.8,
        learning_rate = 1.0,
        response_depth = ''adaptive'',
        sessions_completed = 0,
        total_interactions = 0,
        knowledge_evolution_stage = nascent\<rparr>
       stats"

subsection \<open>Phase 1: analysis\<close>

definition emotion_keywords :: "(string \<times> string list) list" where
  "emotion_keywords =
     [(''joy'', [''happy'', ''great'', ''awesome'', ''wonderful'', ''fantastic'', ''love'']),
      (''curiosity'', [''how'', ''why'', ''what'', ''explain'', ''tell me'', ''learn'']),
      (''concern'', [''worried'', ''problem'', ''issue'', ''help'', ''trouble'', ''difficult'']),
      (''excitement'',
         [''amazing'', ''incredible'', ''wow'', ''unbelievable'', ''!'', ''revolutionary''])]"

definition count_found :: "string list \<Rightarrow> string \<Rightarrow> nat" where
  "count_found keywords text_lower = length (filter (\<lambda>keyword. sublist keyword text_lower) keywords)"

definition detect_emotional_context :: "string \<Rightarrow> (string \<times> real) list" where
  "detect_emotional_context text =
     (let text_lower = str_lower text
      in map (\<lambda>(emotion, keywords).
                (emotion, min (real (count_found keywords text_lower) / real (length keywords)) 1.0))
             emotion_keywords)"

definition creative_indicators :: "string list" where
  "creative_indicators =
     [''create'', ''imagine'', ''design'', ''invent'', ''think of'', ''come up with'',
      ''brainstorm'', ''innovative'', ''original'', ''unique'', ''creative'']"

definition assess_creativity_requirement :: "string \<Rightarrow> real" where
  "assess_creativity_requirement text =
     (let text_lower = str_lower text;
          creativity_score = count_found creative_indicators text_lower
      in min (real creativity_score / 3.0) 1.0)"

definition calculate_processing_depth :: "EDUAI \<Rightarrow> real \<Rightarrow> depth" where
  "calculate_processing_depth self consciousness_factor =
     (let depth_threshold = 50 * consciousness_level self
      in if consciousness_factor > depth_threshold * 2 then TRANSCENDENT
         else if consciousness_factor > depth_threshold then DEEP
         else if consciousness_factor > depth_threshold * 0.5 then MODERATE
         else SURFACE)"

definition analyze_with_edu_consciousness :: "EDUAI \<Rightarrow> string \<Rightarrow> error + analysis" where
  "analyze_with_edu_consciousness self stimulus =
     (let A = min (int (length stimulus)) 255;
          words = str_split stimulus;
          unique_concepts = int (length (remdups (map str_lower words)));
          X = max unique_concepts 1
      in case calculate (real_of_int A) (real_of_int X) of
           Inl e \<Rightarrow> Inl e
         | Inr (edu_mod, edu_scal) \<Rightarrow>
             let consciousness_factor = edu_mod * edu_scal * consciousness_level self;
                 (mode, complexity) =
                   (if consciousness_factor > 100 then (DEEP_CONTEMPLATION, ''high'')
                    else if consciousness_factor > 30 then (ANALYTICAL_THINKING, ''medium'')
                    else (INTUITIVE_RESPONSE, ''low''));
                 emotion_indicators = detect_emotional_context stimulus;
                 creativity_needed = assess_creativity_requirement stimulus
             in Inr \<lparr>edu_consciousness_factor = consciousness_factor,
                     cognitive_mode = mode,
                     complexity_level = complexity,
                     emotion_context = emotion_indicators,
                     creativity_requirement = creativity_needed,
                     processing_depth = calculate_processing_depth self consciousness_factor\<rparr>)"

subsection \<open>Phase 3: response strategy\<close>

definition base_strategy :: strategy where
  "base_strategy =
     \<lparr>max_tokens = 512, temperature = 0.8, top_k = 40, top_p = 0.95,
      creativity_boost = 1.0, depth_multiplier = 1.0\<rparr>"

definition determine_response_strategy :: "analysis \<Rightarrow> memory_insights \<Rightarrow> strategy" where
  "determine_response_strategy consciousness_analysis insights =
     (let mode = cognitive_mode consciousness_analysis;
          strategy0 =
            (if mode = DEEP_CONTEMPLATION
             then base_strategy\<lparr>max_tokens := 1024, temperature := 0.9, top_k := 50,
                    top_p := 0.98, creativity_boost := 1.5, depth_multiplier := 2.0\<rparr>
             else if mode = ANALYTICAL_THINKING
             then base_strategy\<lparr>temperature := 0.7, top_k := 35,
                    creativity_boost := 1.2, depth_multiplier := 1.5\<rparr>
             else base_strategy\<lparr>max_tokens := 256, temperature := 0.6, top_k := 30,
                    top_p := 0.90, creativity_boost := 0.8, depth_multiplier := 0.8\<rparr>);
          creativity_req = creativity_requirement consciousness_analysis;
          strategy1 =
            (if creativity_req > 0.5
             then strategy0\<lparr>temperature := temperature strategy0 * (1 + creativity_req * 0.3),
                    creativity_boost := creativity_boost strategy0 * (1 + creativity_req * 0.5)\<rparr>
             else strategy0);
          memory_confidence = confidence insights
      in if memory_confidence > 0.7
         then strategy1\<lparr>depth_multiplier := depth_multiplier strategy1 * 1.3\<rparr>
         else strategy1)"

subsection \<open>Phase 4: dispatch\<close>

definition strip_prefix :: "string \<Rightarrow> string \<Rightarrow> string" where
  "strip_prefix pre resp =
     (if prefix pre resp then str_strip (drop (length pre) resp) else resp)"

definition prefixes_to_remove :: "string list" where
  "prefixes_to_remove =
     [''EDU-AI consciousness level'', ''responding:'', ''Response:'', ''Answer:'']"

definition clean_response :: "string \<Rightarrow> string \<Rightarrow> string" where
  "clean_response resp original_stimulus =
     fold strip_prefix prefixes_to_remove (strip_prefix original_stimulus resp)"

definition add_edu_ai_signature :: "EDUAI \<Rightarrow> string \<Rightarrow> strategy \<Rightarrow> response_text" where
  "add_edu_ai_signature self resp strat =
     (if depth_multiplier strat > 1.5
      then BackendResponse resp
             (Some (knowledge_evolution_stage self, total_interactions self + 1))
      else BackendResponse resp None)"

text \<open>
  The command line: executable, model path, prompt (level and stimulus), token bound,
  temperature, top-k and top-p.
\<close>

definition backend_cmd :: "EDUAI \<Rightarrow> string \<Rightarrow> string \<Rightarrow> strategy \<Rightarrow> backend_command" where
  "backend_cmd self model stimulus strat =
     \<lparr>cmd_executable = llama_cpp_path self @ ''/llama-cli'',
      cmd_model = model,
      cmd_prompt_level = consciousness_level self,
      cmd_prompt_stimulus = stimulus,
      cmd_n = py_int (real_of_int (max_tokens strat) * depth_multiplier strat),
      cmd_temp = temperature strat * creativity_boost strat,
      cmd_top_k = top_k strat,
      cmd_top_p = top_p strat\<rparr>"

text \<open>
  The \<open>try\<close> block catches \<open>subprocess.TimeoutExpired\<close> only: any other exception of
  \<open>subprocess.run\<close> leaves the function as it is.
\<close>

definition generate_with_backend ::
  "EDUAI \<Rightarrow> environment \<Rightarrow> string \<Rightarrow> string \<Rightarrow> strategy \<Rightarrow> error + response_result" where
  "generate_with_backend self env model stimulus strat =
     (let cmd = backend_cmd self model stimulus strat
      in case subprocess_run env cmd of
           CompletedProcess returncode out err \<Rightarrow>
             (if returncode = 0
              then Inr (ResponseOk
                     (add_edu_ai_signature self (clean_response (str_strip out) stimulus) strat)
                     ''backend_enhanced'')
              else Inr (ResponseFailed err ''backend_enhanced''))
         | TimeoutExpired \<Rightarrow>
             Inr (ResponseFailed ''Response generation timeout'' ''backend_enhanced'')
         | RunRaised e \<Rightarrow> Inl e)"

definition generate_pure_edu_response :: "EDUAI \<Rightarrow> string \<Rightarrow> strategy \<Rightarrow> response_result" where
  "generate_pure_edu_response self stimulus strat =
     ResponseOk
       (PureEduResponse (consciousness_level self) (depth_multiplier strat)
          (creativity_boost strat) (total_interactions self) stimulus
          (knowledge_evolution_stage self))
       ''pure_edu_consciousness''"

text \<open>
  \<open>self.backend_path and os.path.exists(self.backend_path)\<close>: the path is set, it is not
  the empty string, and the file exists.
\<close>

definition generate_intelligent_response ::
  "EDUAI \<Rightarrow> environment \<Rightarrow> string \<Rightarrow> strategy \<Rightarrow> error + response_result" where
  "generate_intelligent_response self env stimulus strat =
     (case backend_path self of
        None \<Rightarrow> Inr (generate_pure_edu_response self stimulus strat)
      | Some p \<Rightarrow>
          if p \<noteq> [] \<and> path_exists env p
          then generate_with_backend self env p stimulus strat
          else Inr (generate_pure_edu_response self stimulus strat))"

subsection \<open>Phase 5: learning and the level update\<close>

definition learn_and_evolve ::
  "EDUAI \<Rightarrow> environment \<Rightarrow> string \<Rightarrow> response_text \<Rightarrow> learning_result \<times> EDUAI" where
  "learn_and_evolve self env stimulus resp =
     (process_interaction env,
      self\<lparr>fractal_memory := fractal_memory self @ [ProcessInteraction stimulus resp True]\<rparr>)"

definition update_consciousness_level :: "EDUAI \<Rightarrow> memory_stats \<Rightarrow> EDUAI" where
  "update_consciousness_level self0 stats =
     (let self = self0\<lparr>fractal_memory := fractal_memory self0 @ [GetMemoryStats]\<rparr>;
          avg_knowledge_weight = stats_avg_knowledge_weight stats;
          new_level = 1.0 + (avg_knowledge_weight - 1.0) * 0.5;
          new_level = max new_level (consciousness_level self)
      in if new_level > consciousness_level self
         then self\<lparr>consciousness_level := new_level\<rparr>
         else self)"

subsection \<open>think\<close>

text \<open>
  An exception raised in phase 4 leaves \<open>think\<close> after the request for suggestions has
  been made and before anything else is changed.
\<close>

definition think :: "EDUAI \<Rightarrow> environment \<Rightarrow> string \<Rightarrow> (error + think_output) \<times> EDUAI" where
  "think self0 env input_stimulus =
     (case analyze_with_edu_consciousness self0 input_stimulus of
        Inl e \<Rightarrow> (Inl e, self0)
      | Inr consciousness_analysis \<Rightarrow>
          let memory_insights = enhanced_response_suggestions env;
              self1 = self0\<lparr>fractal_memory := fractal_memory self0 @
                               [GetEnhancedResponseSuggestions input_stimulus]\<rparr>;
              response_strategy =
                determine_response_strategy consciousness_analysis memory_insights
          in case generate_intelligent_response self1 env input_stimulus response_strategy of
               Inl e \<Rightarrow> (Inl e, self1)
             | Inr response_result \<Rightarrow>
                 if \<not> is_success response_result then (Inr (Failed response_result), self1)
                 else
                   let (learning_outcome, self2) =
                         learn_and_evolve self1 env input_stimulus (response response_result);
                       self3 = self2\<lparr>total_interactions := total_interactions self2 + 1\<rparr>;
                       self4 = update_consciousness_level self3 (memory_stats_reply env)
                   in (Inr (Thought
                         \<lparr>out_stimulus = input_stimulus,
                          out_response = response response_result,
                          out_consciousness_level = consciousness_level self4,
                          out_evolution_stage = knowledge_evolution_stage self4,
                          out_edu_analysis = consciousness_analysis,
                          out_memory_confidence = confidence memory_insights,
                          out_learning_outcome = learning_outcome,
                          out_intelligence_growth = knowledge_growth learning_outcome\<rparr>),
                       self4))"

subsection \<open>The manual evolution trigger\<close>

definition trigger_consciousness_evolution :: "EDUAI \<Rightarrow> memory_stats \<Rightarrow> EDUAI" where
  "trigger_consciousness_evolution self0 stats =
     (let self1 = self0\<lparr>fractal_memory := fractal_memory self0 @ [OptimizeMemory]\<rparr>;
          self = update_consciousness_level self1 stats
      in if total_interactions self \<ge> 1000 \<and> knowledge_evolution_stage self \<noteq> transcendent
         then self\<lparr>knowledge_evolution_stage := transcendent,
                    consciousness_level := consciousness_level self + 0.5\<rparr>
         else if total_interactions self \<ge> 100 \<and> knowledge_evolution_stage self = developing
         then self\<lparr>knowledge_evolution_stage := mature,
                    consciousness_level := consciousness_level self + 0.3\<rparr>
         else if total_interactions self \<ge> 10 \<and> knowledge_evolution_stage self = nascent
         then self\<lparr>knowledge_evolution_stage := developing,
                    consciousness_level := consciousness_level self + 0.2\<rparr>
         else self)"

subsection \<open>Sessions: sequences of think calls and evolution triggers\<close>

datatype event = Think environment string | Evolve memory_stats

fun step :: "EDUAI \<Rightarrow> event \<Rightarrow> EDUAI" where
  "step self (Think env stimulus) = snd (think self env stimulus)"
| "step self (Evolve stats) = trigger_consciousness_evolution self stats"

text \<open>The states an engine goes through, the starting state first.\<close>

fun trace :: "EDUAI \<Rightarrow> event list \<Rightarrow> EDUAI list" where
  "trace self [] = [self]"
| "trace self (ev # evs) = self # trace (step self ev) evs"

fun stage_rank :: "stage \<Rightarrow> nat" where
  "stage_rank nascent = 0"
| "stage_rank developing = 1"
| "stage_rank mature = 2"
| "stage_rank transcendent = 3"

section \<open>Closed forms used in the statements\<close>


definition spec_amplitude :: "string \<Rightarrow> nat" where
  "spec_amplitude stimulus = min (length stimulus) 255"

definition spec_frequency :: "string \<Rightarrow> nat" where
  "spec_frequency stimulus = max (card (set (map str_lower (str_split stimulus)))) 1"

definition spec_combined_factor :: "real \<Rightarrow> string \<Rightarrow> real" where
  "spec_combined_factor level stimulus =
     (real (spec_amplitude stimulus) / 255 * pi) * (406.4 / real (spec_frequency stimulus)) * level"

definition stats_with_total :: "int \<Rightarrow> memory_stats" where
  "stats_with_total n = \<lparr>stat_total_interactions = Some n, stat_avg_knowledge_weight = None\<rparr>"

definition spec_mode_overrides :: "cognitive \<Rightarrow> strategy \<Rightarrow> strategy" where
  "spec_mode_overrides mode s =
     (case mode of
        DEEP_CONTEMPLATION \<Rightarrow>
          s\<lparr>max_tokens := 1024, temperature := 0.9, top_k := 50, top_p := 0.98,
            creativity_boost := 1.5, depth_multiplier := 2.0\<rparr>
      | ANALYTICAL_THINKING \<Rightarrow>
          s\<lparr>temperature := 0.7, top_k := 35, creativity_boost := 1.2, depth_multiplier := 1.5\<rparr>
      | INTUITIVE_RESPONSE \<Rightarrow>
          s\<lparr>max_tokens := 256, temperature := 0.6, top_k := 30, top_p := 0.90,
            creativity_boost := 0.8, depth_multiplier := 0.8\<rparr>)"

definition spec_creativity_adjust :: "real \<Rightarrow> strategy \<Rightarrow> strategy" where
  "spec_creativity_adjust c s =
     (if c > 0.5
      then s\<lparr>temperature := temperature s * (1 + c * 0.3),
             creativity_boost := creativity_boost s * (1 + c * 0.5)\<rparr>
      else s)"

definition spec_confidence_adjust :: "real \<Rightarrow> strategy \<Rightarrow> strategy" where
  "spec_confidence_adjust conf s =
     (if conf > 0.7 then s\<lparr>depth_multiplier := depth_multiplier s * 1.3\<rparr> else s)"

definition spec_strategy :: "cognitive \<Rightarrow> real \<Rightarrow> real \<Rightarrow> strategy" where
  "spec_strategy mode c conf =
     spec_confidence_adjust conf
       (spec_creativity_adjust c
          (spec_mode_overrides mode
             \<lparr>max_tokens = 512, temperature = 0.8, top_k = 40, top_p = 0.95,
              creativity_boost = 1.0, depth_multiplier = 1.0\<rparr>))"

definition not_regressed :: "EDUAI \<Rightarrow> EDUAI \<Rightarrow> bool" where
  "not_regressed s t \<longleftrightarrow>
     consciousness_level s \<le> consciousness_level t
     \<and> stage_rank (knowledge_evolution_stage s) \<le> stage_rank (knowledge_evolution_stage t)"

definition run_failed :: "run_outcome \<Rightarrow> bool" where
  "run_failed outcome =
     (case outcome of CompletedProcess returncode out err \<Rightarrow> returncode \<noteq> 0
      | TimeoutExpired \<Rightarrow> True
      | RunRaised e \<Rightarrow> False)"

definition run_raised :: "run_outcome \<Rightarrow> bool" where
  "run_raised outcome =
     (case outcome of CompletedProcess returncode out err \<Rightarrow> False
      | TimeoutExpired \<Rightarrow> False
      | RunRaised e \<Rightarrow> True)"

definition failure_text :: "run_outcome \<Rightarrow> string" where
  "failure_text outcome =
     (case outcome of CompletedProcess returncode out err \<Rightarrow> err
      | TimeoutExpired \<Rightarrow> ''Response generation timeout''
      | RunRaised e \<Rightarrow> [])"

definition backend_available :: "EDUAI \<Rightarrow> environment \<Rightarrow> bool" where
  "backend_available self env =
     (case backend_path self of None \<Rightarrow> False | Some p \<Rightarrow> p \<noteq> [] \<and> path_exists env p)"

definition used_template :: "error + think_output \<Rightarrow> bool" where
  "used_template res =
     (case res of
        Inr (Thought t) \<Rightarrow>
          (case out_response t of
             PureEduResponse lv dm cb n st sg \<Rightarrow> True
           | BackendResponse txt sig \<Rightarrow> False)
      | Inr (Failed r) \<Rightarrow> False
      | Inl e \<Rightarrow> False)"

definition used_backend :: "error + think_output \<Rightarrow> bool" where
  "used_backend res =
     (case res of
        Inr (Thought t) \<Rightarrow>
          (case out_response t of
             PureEduResponse lv dm cb n st sg \<Rightarrow> False
           | BackendResponse txt sig \<Rightarrow> True)
      | Inr (Failed r) \<Rightarrow> method_used r = ''backend_enhanced''
      | Inl e \<Rightarrow> False)"

definition nothing_exists :: "string \<Rightarrow> bool" where
  "nothing_exists p = False"

definition everything_exists :: "string \<Rightarrow> bool" where
  "everything_exists p = True"

definition backend_times_out :: "backend_command \<Rightarrow> run_outcome" where
  "backend_times_out cmd = TimeoutExpired"

definition backend_exits_1 :: "backend_command \<Rightarrow> run_outcome" where
  "backend_exits_1 cmd = CompletedProcess 1 [] ''failed to load model''"

definition backend_missing :: "backend_command \<Rightarrow> run_outcome" where
  "backend_missing cmd = RunRaised (OSError ''No such file or directory'')"

definition example_env :: "(string \<Rightarrow> bool) \<Rightarrow> (backend_command \<Rightarrow> run_outcome) \<Rightarrow> environment" where
  "example_env exists_fn backend =
     \<lparr>enhanced_response_suggestions = \<lparr>confidence = 0\<rparr>,
      path_exists = exists_fn,
      subprocess_run = backend,
      process_interaction = \<lparr>knowledge_growth = 0\<rparr>,
      memory_stats_reply = \<lparr>stat_total_interactions = None, stat_avg_knowledge_weight = None\<rparr>\<rparr>"

definition run :: "EDUAI \<Rightarrow> event list \<Rightarrow> EDUAI" where
  "run self evs = foldl step self evs"

definition example_engine :: "string option \<Rightarrow> int \<Rightarrow> EDUAI" where
  "example_engine backend n = EDUAI_init backend (stats_with_total n)"

section \<open>Properties of the formula\<close>

lemma calculate_valid:
  assumes "0 \<le> A" and "0 < X"
  shows "calculate A X = Inr (min A 255 / 255 * pi, 406.4 / X)"
  using assms by (simp add: calculate_def NORMALIZATION_FACTOR_def SCALING_CONSTANT_def Let_def)





subsection \<open>Band classification\<close>

lemma classify_loop_find:
  "classify_loop table f =
     (case find (\<lambda>(band, low, high). low \<le> f \<and> f < high) table of
        None \<Rightarrow> ''unknown''
      | Some (band, low, high) \<Rightarrow> band)"
  by (induction table f rule: classify_loop.induct) auto

text \<open>
  Claim C10. \<open>classifyBand\<close> returns the name of the first range of the ordered table
  delta [0.5, 4), theta [4, 8), alpha [8, 13), beta [13, 30), gamma [30, 100) that
  contains the frequency (lower bound included, upper bound excluded), and
  \<open>unknown\<close> when none does; 3.0 is delta, 10.0 is alpha and 1000.0 is unknown.
\<close>

theorem classify_neural_band_spec:
  "classify_neural_band f =
     (case find (\<lambda>(band, low, high). low \<le> f \<and> f < high)
             [(''delta'', 0.5, 4), (''theta'', 4, 8), (''alpha'', 8, 13),
              (''beta'', 13, 30), (''gamma'', 30, 100)] of
        None \<Rightarrow> ''unknown''
      | Some (band, low, high) \<Rightarrow> band)
   \<and> classify_neural_band f =
     (if 0.5 \<le> f \<and> f < 4 then ''delta''
      else if 4 \<le> f \<and> f < 8 then ''theta''
      else if 8 \<le> f \<and> f < 13 then ''alpha''
      else if 13 \<le> f \<and> f < 30 then ''beta''
      else if 30 \<le> f \<and> f < 100 then ''gamma''
      else ''unknown'')
   \<and> classify_neural_band 3.0 = ''delta''
   \<and> classify_neural_band 10.0 = ''alpha''
   \<and> classify_neural_band 1000.0 = ''unknown''"
proof (intro conjI)
  show "classify_neural_band f =
     (case find (\<lambda>(band, low, high). low \<le> f \<and> f < high)
             [(''delta'', 0.5, 4), (''theta'', 4, 8), (''alpha'', 8, 13),
              (''beta'', 13, 30), (''gamma'', 30, 100)] of
        None \<Rightarrow> ''unknown''
      | Some (band, low, high) \<Rightarrow> band)"
    unfolding classify_neural_band_def NEURAL_BANDS_def by (rule classify_loop_find)
  show "classify_neural_band f =
     (if 0.5 \<le> f \<and> f < 4 then ''delta''
      else if 4 \<le> f \<and> f < 8 then ''theta''
      else if 8 \<le> f \<and> f < 13 then ''alpha''
      else if 13 \<le> f \<and> f < 30 then ''beta''
      else if 30 \<le> f \<and> f < 100 then ''gamma''
      else ''unknown'')"
    by (simp add: classify_neural_band_def NEURAL_BANDS_def)
  show "classify_neural_band 3.0 = ''delta''"
    by (simp add: classify_neural_band_def NEURAL_BANDS_def)
  show "classify_neural_band 10.0 = ''alpha''"
    by (simp add: classify_neural_band_def NEURAL_BANDS_def)
  show "classify_neural_band 1000.0 = ''unknown''"
    by (simp add: classify_neural_band_def NEURAL_BANDS_def)
qed

subsection \<open>Batch and vectorised evaluation\<close>






section \<open>Properties of the engine\<close>

subsection \<open>Construction\<close>

text \<open>
  Claim C4. At construction the stage and the level are determined by the prior
  interaction count alone: below 10 nascent with 1.0, from 10 below 100 developing with
  1.5, from 100 below 1000 mature with 2.0, from 1000 on transcendent with 3.0.
\<close>

theorem initialize_consciousness_thresholds:
  "total_interactions (EDUAI_init backend stats) = stats_total_interactions stats
   \<and> (stats_total_interactions stats < 10 \<longrightarrow>
        knowledge_evolution_stage (EDUAI_init backend stats) = nascent
        \<and> consciousness_level (EDUAI_init backend stats) = 1.0)
   \<and> (10 \<le> stats_total_interactions stats \<and> stats_total_interactions stats < 100 \<longrightarrow>
        knowledge_evolution_stage (EDUAI_init backend stats) = developing
        \<and> consciousness_level (EDUAI_init backend stats) = 1.5)
   \<and> (100 \<le> stats_total_interactions stats \<and> stats_total_interactions stats < 1000 \<longrightarrow>
        knowledge_evolution_stage (EDUAI_init backend stats) = mature
        \<and> consciousness_level (EDUAI_init backend stats) = 2.0)
   \<and> (1000 \<le> stats_total_interactions stats \<longrightarrow>
        knowledge_evolution_stage (EDUAI_init backend stats) = transcendent
        \<and> consciousness_level (EDUAI_init backend stats) = 3.0)"
  by (simp add: EDUAI_init_def initialize_consciousness_def Let_def)

theorem initialize_consciousness_thresholds_witness:
  "knowledge_evolution_stage (EDUAI_init None (stats_with_total 9)) = nascent
   \<and> consciousness_level (EDUAI_init None (stats_with_total 9)) = 1.0
   \<and> knowledge_evolution_stage (EDUAI_init None (stats_with_total 10)) = developing
   \<and> consciousness_level (EDUAI_init None (stats_with_total 10)) = 1.5
   \<and> knowledge_evolution_stage (EDUAI_init None (stats_with_total 999)) = mature
   \<and> consciousness_level (EDUAI_init None (stats_with_total 999)) = 2.0
   \<and> knowledge_evolution_stage (EDUAI_init None (stats_with_total 1000)) = transcendent
   \<and> consciousness_level (EDUAI_init None (stats_with_total 1000)) = 3.0"
  using initialize_consciousness_thresholds [of None "stats_with_total 9"]
    initialize_consciousness_thresholds [of None "stats_with_total 10"]
    initialize_consciousness_thresholds [of None "stats_with_total 999"]
    initialize_consciousness_thresholds [of None "stats_with_total 1000"]
  by (simp add: stats_total_interactions_def stats_with_total_def)

lemma spec_frequency_pos: "1 \<le> spec_frequency stimulus"
  by (simp add: spec_frequency_def)

lemma analyze_calculate:
  "calculate (real_of_int (min (int (length stimulus)) 255))
     (real_of_int (max (int (length (remdups (map str_lower (str_split stimulus))))) 1))
   = Inr (real (spec_amplitude stimulus) / 255 * pi, 406.4 / real (spec_frequency stimulus))"
proof -
  have a: "real_of_int (min (int (length stimulus)) 255) = real (spec_amplitude stimulus)"
    by (simp add: spec_amplitude_def min_def)
  have x: "real_of_int (max (int (length (remdups (map str_lower (str_split stimulus))))) 1)
             = real (spec_frequency stimulus)"
    by (simp add: spec_frequency_def max_def length_remdups_card_conv)
  have a0: "0 \<le> real (spec_amplitude stimulus)" by simp
  have x0: "0 < real (spec_frequency stimulus)" using spec_frequency_pos [of stimulus] by simp
  have m: "min (real (spec_amplitude stimulus)) 255 = real (spec_amplitude stimulus)"
    by (simp add: spec_amplitude_def)
  show ?thesis
    unfolding a x using calculate_valid [OF a0 x0] by (simp only: m)
qed

lemma analyze_total:
  "analyze_with_edu_consciousness self stimulus =
     Inr \<lparr>edu_consciousness_factor = spec_combined_factor (consciousness_level self) stimulus,
          cognitive_mode =
            (if spec_combined_factor (consciousness_level self) stimulus > 100
             then DEEP_CONTEMPLATION
             else if spec_combined_factor (consciousness_level self) stimulus > 30
             then ANALYTICAL_THINKING else INTUITIVE_RESPONSE),
          complexity_level =
            (if spec_combined_factor (consciousness_level self) stimulus > 100 then ''high''
             else if spec_combined_factor (consciousness_level self) stimulus > 30
             then ''medium'' else ''low''),
          emotion_context = detect_emotional_context stimulus,
          creativity_requirement = assess_creativity_requirement stimulus,
          processing_depth =
            calculate_processing_depth self
              (spec_combined_factor (consciousness_level self) stimulus)\<rparr>"
  unfolding analyze_with_edu_consciousness_def Let_def analyze_calculate
  by (simp add: spec_combined_factor_def)

text \<open>
  Claim C8. For every stimulus and every current level the analysis succeeds, with
  amplitude \<open>min(length(stimulus), 255)\<close>, frequency the number of distinct lowercased
  whitespace-separated words and at least 1, combined factor modulation times scaling
  times level; the cognitive mode is deep above 100, analytical above 30, else
  intuitive; the processing depth is transcendent above twice \<open>50 * level\<close>, deep above
  \<open>50 * level\<close>, moderate above half of it, else surface.
\<close>

theorem analyze_spec:
  "\<exists>a. analyze_with_edu_consciousness self stimulus = Inr a
     \<and> edu_consciousness_factor a =
         (real (min (length stimulus) 255) / 255 * pi)
         * (406.4 / real (max (card (set (map str_lower (str_split stimulus)))) 1))
         * consciousness_level self
     \<and> cognitive_mode a =
         (if edu_consciousness_factor a > 100 then DEEP_CONTEMPLATION
          else if edu_consciousness_factor a > 30 then ANALYTICAL_THINKING
          else INTUITIVE_RESPONSE)
     \<and> processing_depth a =
         (if edu_consciousness_factor a > 2 * (50 * consciousness_level self) then TRANSCENDENT
          else if edu_consciousness_factor a > 50 * consciousness_level self then DEEP
          else if edu_consciousness_factor a > 0.5 * (50 * consciousness_level self) then MODERATE
          else SURFACE)"
  by (simp add: analyze_total calculate_processing_depth_def Let_def
      spec_combined_factor_def spec_amplitude_def spec_frequency_def)


theorem analyze_spec_witness:
  "\<exists>a. analyze_with_edu_consciousness (EDUAI_init None (stats_with_total 0)) ''Hello EDU hello'' = Inr a
     \<and> edu_consciousness_factor a = (15 / 255 * pi) * (406.4 / 2) * 1.0"
proof -
  have w: "str_split ''Hello EDU hello'' = [''Hello'', ''EDU'', ''hello'']"
    by (simp add: str_split_def is_space_def)
  have l: "map str_lower [''Hello'', ''EDU'', ''hello''] = [''hello'', ''edu'', ''hello'']"
    by code_simp
  have f: "max (card (set (map str_lower (str_split ''Hello EDU hello'')))) 1 = (2::nat)"
    unfolding w l by (simp add: card_insert_if)
  have n: "min (length ''Hello EDU hello'') 255 = (15::nat)"
    by simp
  have c: "consciousness_level (EDUAI_init None (stats_with_total 0)) = 1.0"
    by (simp add: EDUAI_init_def initialize_consciousness_def Let_def
        stats_total_interactions_def stats_with_total_def)
  from analyze_spec [of "EDUAI_init None (stats_with_total 0)" "''Hello EDU hello''"]
  obtain a where r:
      "analyze_with_edu_consciousness (EDUAI_init None (stats_with_total 0)) ''Hello EDU hello''
         = Inr a"
    and e: "edu_consciousness_factor a =
         (real (min (length ''Hello EDU hello'') 255) / 255 * pi)
         * (406.4 / real (max (card (set (map str_lower (str_split ''Hello EDU hello'')))) 1))
         * consciousness_level (EDUAI_init None (stats_with_total 0))"
    by blast
  from e have "edu_consciousness_factor a = (15 / 255 * pi) * (406.4 / 2) * 1.0"
    unfolding f n c by simp
  with r show ?thesis by blast
qed

text \<open>
  Claim C9. The strategy is the base bundle (512, 0.8, 40, 0.95, 1.0, 1.0), overridden per
  cognitive mode, then with temperature and creativity boost scaled when the creativity
  score exceeds 0.5, then with the depth multiplier scaled by 1.3 when the memory
  confidence exceeds 0.7, in that order.
\<close>

theorem determine_response_strategy_spec:
  "determine_response_strategy a m =
     spec_strategy (cognitive_mode a) (creativity_requirement a) (confidence m)
   \<and> max_tokens (determine_response_strategy a m) =
       (case cognitive_mode a of DEEP_CONTEMPLATION \<Rightarrow> 1024
        | ANALYTICAL_THINKING \<Rightarrow> 512 | INTUITIVE_RESPONSE \<Rightarrow> 256)
   \<and> temperature (determine_response_strategy a m) =
       (case cognitive_mode a of DEEP_CONTEMPLATION \<Rightarrow> 0.9
        | ANALYTICAL_THINKING \<Rightarrow> 0.7 | INTUITIVE_RESPONSE \<Rightarrow> 0.6)
       * (if creativity_requirement a > 0.5 then 1 + creativity_requirement a * 0.3 else 1)
   \<and> top_k (determine_response_strategy a m) =
       (case cognitive_mode a of DEEP_CONTEMPLATION \<Rightarrow> 50
        | ANALYTICAL_THINKING \<Rightarrow> 35 | INTUITIVE_RESPONSE \<Rightarrow> 30)
   \<and> top_p (determine_response_strategy a m) =
       (case cognitive_mode a of DEEP_CONTEMPLATION \<Rightarrow> 0.98
        | ANALYTICAL_THINKING \<Rightarrow> 0.95 | INTUITIVE_RESPONSE \<Rightarrow> 0.90)
   \<and> creativity_boost (determine_response_strategy a m) =
       (case cognitive_mode a of DEEP_CONTEMPLATION \<Rightarrow> 1.5
        | ANALYTICAL_THINKING \<Rightarrow> 1.2 | INTUITIVE_RESPONSE \<Rightarrow> 0.8)
       * (if creativity_requirement a > 0.5 then 1 + creativity_requirement a * 0.5 else 1)
   \<and> depth_multiplier (determine_response_strategy a m) =
       (case cognitive_mode a of DEEP_CONTEMPLATION \<Rightarrow> 2.0
        | ANALYTICAL_THINKING \<Rightarrow> 1.5 | INTUITIVE_RESPONSE \<Rightarrow> 0.8)
       * (if confidence m > 0.7 then 1.3 else 1)"
  by (cases "cognitive_mode a")
     (simp_all add: determine_response_strategy_def base_strategy_def Let_def
        spec_strategy_def spec_confidence_adjust_def spec_creativity_adjust_def
        spec_mode_overrides_def)

subsection \<open>Monotonicity of level and stage\<close>

lemma update_consciousness_level_fields:
  "consciousness_level (update_consciousness_level self stats) =
     max (consciousness_level self) (1 + (stats_avg_knowledge_weight stats - 1) * 0.5)"
  "knowledge_evolution_stage (update_consciousness_level self stats) = knowledge_evolution_stage self"
  "total_interactions (update_consciousness_level self stats) = total_interactions self"
  "backend_path (update_consciousness_level self stats) = backend_path self"
  "fractal_memory (update_consciousness_level self stats) = fractal_memory self @ [GetMemoryStats]"
  by (simp_all add: update_consciousness_level_def Let_def max_def)

lemma not_regressed_refl: "not_regressed s s"
  by (simp add: not_regressed_def)

lemma not_regressed_trans: "not_regressed s t \<Longrightarrow> not_regressed t u \<Longrightarrow> not_regressed s u"
  by (auto simp: not_regressed_def)

lemma think_state:
  "snd (think self env stimulus) =
     (let self1 = self\<lparr>fractal_memory := fractal_memory self @
                          [GetEnhancedResponseSuggestions stimulus]\<rparr>
      in case generate_intelligent_response self1 env stimulus
                (determine_response_strategy
                   (projr (analyze_with_edu_consciousness self stimulus))
                   (enhanced_response_suggestions env)) of
           Inl e \<Rightarrow> self1
         | Inr r \<Rightarrow>
             if is_success r
             then update_consciousness_level
                    (self1\<lparr>fractal_memory := fractal_memory self1 @
                                [ProcessInteraction stimulus (response r) True],
                            total_interactions := total_interactions self + 1\<rparr>)
                    (memory_stats_reply env)
             else self1)"
  by (simp add: think_def analyze_total Let_def learn_and_evolve_def split: sum.splits)

lemma think_not_regressed: "not_regressed self (snd (think self env stimulus))"
  by (simp add: think_state Let_def not_regressed_def update_consciousness_level_fields
      split: sum.splits)

lemma trigger_fields:
  "total_interactions (trigger_consciousness_evolution self stats) = total_interactions self"
  "backend_path (trigger_consciousness_evolution self stats) = backend_path self"
  by (simp_all add: trigger_consciousness_evolution_def Let_def update_consciousness_level_fields)

lemma trigger_not_regressed: "not_regressed self (trigger_consciousness_evolution self stats)"
  by (cases "knowledge_evolution_stage self")
     (auto simp: trigger_consciousness_evolution_def Let_def not_regressed_def
        update_consciousness_level_fields max_def)

lemma step_not_regressed: "not_regressed self (step self ev)"
  by (cases ev) (simp_all add: think_not_regressed trigger_not_regressed)

lemma trace_not_regressed: "t \<in> set (trace self evs) \<Longrightarrow> not_regressed self t"
proof (induction evs arbitrary: self)
  case Nil
  then show ?case by (simp add: not_regressed_refl)
next
  case (Cons ev evs)
  from Cons.prems have "t = self \<or> t \<in> set (trace (step self ev) evs)" by simp
  then show ?case
  proof
    assume "t = self"
    then show ?thesis by (simp add: not_regressed_refl)
  next
    assume "t \<in> set (trace (step self ev) evs)"
    then have "not_regressed (step self ev) t" by (rule Cons.IH)
    with step_not_regressed [of self ev] show ?thesis by (rule not_regressed_trans)
  qed
qed

lemma trace_sorted: "sorted_wrt not_regressed (trace self evs)"
proof (induction evs arbitrary: self)
  case Nil
  show ?case by simp
next
  case (Cons ev evs)
  have "\<forall>t \<in> set (trace (step self ev) evs). not_regressed self t"
    using step_not_regressed [of self ev] trace_not_regressed not_regressed_trans by blast
  with Cons.IH [of "step self ev"] show ?case by simp
qed

lemma length_trace: "length (trace self evs) = Suc (length evs)"
  by (induction evs arbitrary: self) simp_all

text \<open>
  Claim C2. Across any sequence of \<open>think\<close> calls and manual evolution triggers on one
  engine, the level never decreases and the stage never goes back: of any two states the
  engine goes through, the later one has a level and a stage at least those of the
  earlier one (nascent < developing < mature < transcendent).
\<close>

theorem experience_never_regresses:
  "sorted_wrt not_regressed (trace self evs)
   \<and> (\<forall>i j. i < j \<and> j \<le> length evs \<longrightarrow>
         consciousness_level (trace self evs ! i) \<le> consciousness_level (trace self evs ! j)
         \<and> stage_rank (knowledge_evolution_stage (trace self evs ! i))
             \<le> stage_rank (knowledge_evolution_stage (trace self evs ! j)))"
proof (intro conjI allI impI)
  show "sorted_wrt not_regressed (trace self evs)" by (rule trace_sorted)
next
  fix i j assume ij: "i < j \<and> j \<le> length evs"
  then have "i < j" and "j < length (trace self evs)" by (simp_all add: length_trace)
  with trace_sorted [of self evs]
  have n: "not_regressed (trace self evs ! i) (trace self evs ! j)"
    by (simp add: sorted_wrt_iff_nth_less)
  from n show "consciousness_level (trace self evs ! i) \<le> consciousness_level (trace self evs ! j)"
    by (simp add: not_regressed_def)
  from n show "stage_rank (knowledge_evolution_stage (trace self evs ! i))
             \<le> stage_rank (knowledge_evolution_stage (trace self evs ! j))"
    by (simp add: not_regressed_def)
qed

subsection \<open>Dispatch and backend failure\<close>

lemma dispatch_available:
  assumes "backend_path self = Some p" "p \<noteq> []" "path_exists env p"
  shows "generate_intelligent_response self env stimulus strat =
           generate_with_backend self env p stimulus strat"
  using assms by (simp add: generate_intelligent_response_def)

lemma dispatch_unavailable:
  assumes "\<not> backend_available self env"
  shows "generate_intelligent_response self env stimulus strat =
           Inr (generate_pure_edu_response self stimulus strat)"
  using assms
  by (auto simp: generate_intelligent_response_def backend_available_def split: option.splits)

lemma generate_with_backend_failed:
  assumes "run_failed (subprocess_run env (backend_cmd self p stimulus strat))"
  shows "generate_with_backend self env p stimulus strat =
           Inr (ResponseFailed
                  (failure_text (subprocess_run env (backend_cmd self p stimulus strat)))
                  ''backend_enhanced'')"
  using assms
  by (simp add: generate_with_backend_def run_failed_def failure_text_def Let_def
      split: run_outcome.splits)

lemma generate_with_backend_raised:
  "(\<exists>e. generate_with_backend self env p stimulus strat = Inl e) \<longleftrightarrow>
     run_raised (subprocess_run env (backend_cmd self p stimulus strat))"
  by (simp add: generate_with_backend_def run_raised_def Let_def split: run_outcome.splits)

lemma generate_with_backend_method:
  "generate_with_backend self env p stimulus strat = Inr r \<Longrightarrow>
     method_used r = ''backend_enhanced''"
  by (auto simp: generate_with_backend_def Let_def split: run_outcome.splits if_splits)

lemma generate_with_backend_response:
  "generate_with_backend self env p stimulus strat = Inr r \<Longrightarrow> is_success r \<Longrightarrow>
     \<exists>txt sig. response r = BackendResponse txt sig"
  by (auto simp: generate_with_backend_def Let_def add_edu_ai_signature_def
      split: run_outcome.splits if_splits)

lemma backend_cmd_log:
  "backend_cmd (self\<lparr>fractal_memory := m\<rparr>) p stimulus strat = backend_cmd self p stimulus strat"
  by (simp add: backend_cmd_def)

lemma think_result:
  "think self env stimulus =
     (let a = projr (analyze_with_edu_consciousness self stimulus);
          self1 = self\<lparr>fractal_memory := fractal_memory self @
                          [GetEnhancedResponseSuggestions stimulus]\<rparr>
      in case generate_intelligent_response self1 env stimulus
                (determine_response_strategy a (enhanced_response_suggestions env)) of
           Inl e \<Rightarrow> (Inl e, self1)
         | Inr r \<Rightarrow>
             if is_success r
             then (let self4 = update_consciousness_level
                    (self1\<lparr>fractal_memory := fractal_memory self1 @
                                [ProcessInteraction stimulus (response r) True],
                            total_interactions := total_interactions self + 1\<rparr>)
                    (memory_stats_reply env)
                   in (Inr (Thought
                         \<lparr>out_stimulus = stimulus,
                          out_response = response r,
                          out_consciousness_level = consciousness_level self4,
                          out_evolution_stage = knowledge_evolution_stage self4,
                          out_edu_analysis = a,
                          out_memory_confidence = confidence (enhanced_response_suggestions env),
                          out_learning_outcome = process_interaction env,
                          out_intelligence_growth = knowledge_growth (process_interaction env)\<rparr>),
                       self4))
             else (Inr (Failed r), self1))"
  by (simp add: think_def analyze_total Let_def learn_and_evolve_def split: sum.splits)

text \<open>
  When the backend cannot be started, \<open>think\<close> raises: the exception of \<open>subprocess.run\<close>
  is not caught, and the engine is left with the request for suggestions made and nothing
  else changed.
\<close>

lemma think_launch_error:
  "think (EDUAI_init (Some ''/model.gguf'') (stats_with_total 0))
         (example_env everything_exists backend_missing) ''hi''
     = (Inl (OSError ''No such file or directory''),
        (EDUAI_init (Some ''/model.gguf'') (stats_with_total 0))
          \<lparr>fractal_memory := [GetMemoryStats, GetEnhancedResponseSuggestions ''hi'']\<rparr>)"
  by (simp add: think_result Let_def generate_intelligent_response_def
      generate_with_backend_def backend_missing_def example_env_def everything_exists_def
      EDUAI_init_def initialize_consciousness_def stats_total_interactions_def
      stats_with_total_def)

text \<open>
  Claim C6. When a backend is configured and present and the backend run fails (exit code
  other than 0, or timeout), \<open>think\<close> returns a failed result carrying the error text, and
  the session state is as before: the interaction count, the level and the stage are
  unchanged, and the only call made to the memory collaborator is the request for
  suggestions; no interaction is recorded.
\<close>

theorem think_backend_failure:
  assumes cfg: "backend_path self = Some p" "p \<noteq> []" "path_exists env p"
    and an: "analyze_with_edu_consciousness self stimulus = Inr a"
    and fail: "run_failed (subprocess_run env
                 (backend_cmd self p stimulus
                    (determine_response_strategy a (enhanced_response_suggestions env))))"
  shows "think self env stimulus =
           (Inr (Failed (ResponseFailed
                   (failure_text (subprocess_run env
                      (backend_cmd self p stimulus
                         (determine_response_strategy a (enhanced_response_suggestions env)))))
                   ''backend_enhanced'')),
            self\<lparr>fractal_memory := fractal_memory self @
                     [GetEnhancedResponseSuggestions stimulus]\<rparr>)
       \<and> total_interactions (snd (think self env stimulus)) = total_interactions self
       \<and> consciousness_level (snd (think self env stimulus)) = consciousness_level self
       \<and> knowledge_evolution_stage (snd (think self env stimulus)) = knowledge_evolution_stage self
       \<and> fractal_memory (snd (think self env stimulus)) =
           fractal_memory self @ [GetEnhancedResponseSuggestions stimulus]"
proof -
  let ?self1 = "self\<lparr>fractal_memory := fractal_memory self @
                     [GetEnhancedResponseSuggestions stimulus]\<rparr>"
  let ?strat = "determine_response_strategy a (enhanced_response_suggestions env)"
  have d: "generate_intelligent_response ?self1 env stimulus ?strat =
             generate_with_backend ?self1 env p stimulus ?strat"
    using cfg by (simp add: dispatch_available)
  have f: "run_failed (subprocess_run env (backend_cmd ?self1 p stimulus ?strat))"
    using fail by (simp only: backend_cmd_log)
  have g: "generate_with_backend ?self1 env p stimulus ?strat =
             Inr (ResponseFailed
                    (failure_text (subprocess_run env (backend_cmd self p stimulus ?strat)))
                    ''backend_enhanced'')"
    using generate_with_backend_failed [OF f] by (simp only: backend_cmd_log)
  have t: "think self env stimulus =
           (Inr (Failed (ResponseFailed
                   (failure_text (subprocess_run env (backend_cmd self p stimulus ?strat)))
                   ''backend_enhanced'')), ?self1)"
    by (simp add: think_result an d g Let_def)
  show ?thesis by (simp add: t)
qed

lemma example_engine_fields:
  "backend_path (example_engine b n) = b"
  "total_interactions (example_engine b n) = n"
  "fractal_memory (example_engine b n) = [GetMemoryStats]"
  by (simp_all add: example_engine_def EDUAI_init_def initialize_consciousness_def Let_def
      stats_total_interactions_def stats_with_total_def)

lemma example_engine_0:
  "knowledge_evolution_stage (example_engine b 0) = nascent"
  "consciousness_level (example_engine b 0) = 1"
  by (simp_all add: example_engine_def EDUAI_init_def initialize_consciousness_def Let_def
      stats_total_interactions_def stats_with_total_def)

theorem think_backend_failure_witness:
  "think (example_engine (Some ''/model.gguf'') 0)
         (example_env everything_exists backend_exits_1) ''hi''
     = (Inr (Failed (ResponseFailed ''failed to load model'' ''backend_enhanced'')),
        (example_engine (Some ''/model.gguf'') 0)
          \<lparr>fractal_memory := [GetMemoryStats, GetEnhancedResponseSuggestions ''hi'']\<rparr>)
   \<and> think (example_engine (Some ''/model.gguf'') 0)
         (example_env everything_exists backend_times_out) ''hi''
     = (Inr (Failed (ResponseFailed ''Response generation timeout'' ''backend_enhanced'')),
        (example_engine (Some ''/model.gguf'') 0)
          \<lparr>fractal_memory := [GetMemoryStats, GetEnhancedResponseSuggestions ''hi'']\<rparr>)"
proof -
  let ?s = "example_engine (Some ''/model.gguf'') 0"
  obtain a where an: "analyze_with_edu_consciousness ?s ''hi'' = Inr a"
    using analyze_total by blast
  have c: "backend_path ?s = Some ''/model.gguf''" "''/model.gguf'' \<noteq> []"
    by (simp_all add: example_engine_fields)
  have e1: "path_exists (example_env everything_exists backend_exits_1) ''/model.gguf''"
    by (simp add: example_env_def everything_exists_def)
  have e2: "path_exists (example_env everything_exists backend_times_out) ''/model.gguf''"
    by (simp add: example_env_def everything_exists_def)
  have f1: "run_failed (subprocess_run (example_env everything_exists backend_exits_1)
              (backend_cmd ?s ''/model.gguf'' ''hi''
                 (determine_response_strategy a
                    (enhanced_response_suggestions (example_env everything_exists backend_exits_1)))))"
    by (simp add: example_env_def backend_exits_1_def run_failed_def)
  have f2: "run_failed (subprocess_run (example_env everything_exists backend_times_out)
              (backend_cmd ?s ''/model.gguf'' ''hi''
                 (determine_response_strategy a
                    (enhanced_response_suggestions (example_env everything_exists backend_times_out)))))"
    by (simp add: example_env_def backend_times_out_def run_failed_def)
  from think_backend_failure [OF c(1) c(2) e1 an f1] think_backend_failure [OF c(1) c(2) e2 an f2]
  show ?thesis
    by (simp add: example_env_def backend_exits_1_def backend_times_out_def failure_text_def
        example_engine_fields)
qed

lemma backend_available_iff:
  "backend_available self env \<longleftrightarrow>
     (\<exists>p. backend_path self = Some p \<and> p \<noteq> [] \<and> path_exists env p)"
  by (auto simp: backend_available_def split: option.splits)

lemma think_never_template:
  assumes av: "backend_available self env"
  shows "\<not> used_template (fst (think self env stimulus))"
proof -
  let ?self1 = "self\<lparr>fractal_memory := fractal_memory self @
                     [GetEnhancedResponseSuggestions stimulus]\<rparr>"
  let ?strat = "determine_response_strategy
                  (projr (analyze_with_edu_consciousness self stimulus))
                  (enhanced_response_suggestions env)"
  from av obtain p where p: "backend_path ?self1 = Some p" "p \<noteq> []" "path_exists env p"
    by (auto simp: backend_available_def split: option.splits)
  have d: "generate_intelligent_response ?self1 env stimulus ?strat =
             generate_with_backend ?self1 env p stimulus ?strat"
    using p by (rule dispatch_available)
  show ?thesis
  proof (cases "generate_with_backend ?self1 env p stimulus ?strat")
    case (Inl e)
    then show ?thesis by (simp add: think_result Let_def d used_template_def)
  next
    case (Inr r)
    then show ?thesis
      using generate_with_backend_response [OF Inr]
      by (auto simp: think_result Let_def d used_template_def)
  qed
qed

lemma think_uses_backend:
  assumes cfg: "backend_path self = Some p" "p \<noteq> []" "path_exists env p"
    and an: "analyze_with_edu_consciousness self stimulus = Inr a"
    and ret: "\<not> run_raised (subprocess_run env
                 (backend_cmd self p stimulus
                    (determine_response_strategy a (enhanced_response_suggestions env))))"
  shows "used_backend (fst (think self env stimulus))"
proof -
  let ?self1 = "self\<lparr>fractal_memory := fractal_memory self @
                     [GetEnhancedResponseSuggestions stimulus]\<rparr>"
  let ?strat = "determine_response_strategy a (enhanced_response_suggestions env)"
  have d: "generate_intelligent_response ?self1 env stimulus ?strat =
             generate_with_backend ?self1 env p stimulus ?strat"
    using cfg by (simp add: dispatch_available)
  have "\<not> run_raised (subprocess_run env (backend_cmd ?self1 p stimulus ?strat))"
    using ret by (simp add: backend_cmd_log)
  then have "\<not> (\<exists>e. generate_with_backend ?self1 env p stimulus ?strat = Inl e)"
    by (simp add: generate_with_backend_raised)
  then obtain r where r: "generate_with_backend ?self1 env p stimulus ?strat = Inr r"
    by (cases "generate_with_backend ?self1 env p stimulus ?strat") auto
  show ?thesis
    using generate_with_backend_response [OF r] generate_with_backend_method [OF r]
    by (auto simp: think_result Let_def an d r used_backend_def)
qed

lemma think_uses_template:
  assumes "\<not> backend_available self env"
  shows "used_template (fst (think self env stimulus))
       \<and> \<not> used_backend (fst (think self env stimulus))"
proof -
  let ?self1 = "self\<lparr>fractal_memory := fractal_memory self @
                     [GetEnhancedResponseSuggestions stimulus]\<rparr>"
  let ?strat = "determine_response_strategy
                  (projr (analyze_with_edu_consciousness self stimulus))
                  (enhanced_response_suggestions env)"
  from assms have "\<not> backend_available ?self1 env" by (simp add: backend_available_def)
  then have d: "generate_intelligent_response ?self1 env stimulus ?strat =
             Inr (generate_pure_edu_response ?self1 stimulus ?strat)"
    by (rule dispatch_unavailable)
  have "used_template (fst (think self env stimulus))"
    by (simp add: think_result Let_def d used_template_def generate_pure_edu_response_def)
  moreover have "\<not> used_backend (fst (think self env stimulus))"
    by (simp add: think_result Let_def d used_backend_def generate_pure_edu_response_def)
  ultimately show ?thesis by simp
qed

text \<open>
  Claim C7, as the code has it. When a backend path is configured, is not empty, and the
  file exists, a \<open>think\<close> call never uses the templated response, and when the backend
  run returns or times out the call goes through the backend: it succeeds with the
  backend's text or reports the backend's failure. When no backend path is configured,
  or the path is empty, or the file does not exist, the call uses the templated response.
\<close>

theorem think_dispatch:
  "(backend_path self = Some p \<and> p \<noteq> [] \<and> path_exists env p
      \<and> analyze_with_edu_consciousness self stimulus = Inr a
      \<and> \<not> run_raised (subprocess_run env
             (backend_cmd self p stimulus
                (determine_response_strategy a (enhanced_response_suggestions env)))) \<longrightarrow>
      used_backend (fst (think self env stimulus)))
   \<and> ((\<exists>q. backend_path self = Some q \<and> q \<noteq> [] \<and> path_exists env q) \<longrightarrow>
      \<not> used_template (fst (think self env stimulus)))
   \<and> (\<not> (\<exists>q. backend_path self = Some q \<and> q \<noteq> [] \<and> path_exists env q) \<longrightarrow>
      used_template (fst (think self env stimulus))
      \<and> \<not> used_backend (fst (think self env stimulus)))"
proof (intro conjI impI)
  assume "backend_path self = Some p \<and> p \<noteq> [] \<and> path_exists env p
      \<and> analyze_with_edu_consciousness self stimulus = Inr a
      \<and> \<not> run_raised (subprocess_run env
             (backend_cmd self p stimulus
                (determine_response_strategy a (enhanced_response_suggestions env))))"
  then show "used_backend (fst (think self env stimulus))"
    using think_uses_backend by blast
next
  assume "\<exists>q. backend_path self = Some q \<and> q \<noteq> [] \<and> path_exists env q"
  then have "backend_available self env" by (simp add: backend_available_iff)
  then show "\<not> used_template (fst (think self env stimulus))"
    by (rule think_never_template)
next
  assume n: "\<not> (\<exists>q. backend_path self = Some q \<and> q \<noteq> [] \<and> path_exists env q)"
  then have "\<not> backend_available self env" by (simp add: backend_available_iff)
  then show "used_template (fst (think self env stimulus))"
    using think_uses_template by blast
next
  assume n: "\<not> (\<exists>q. backend_path self = Some q \<and> q \<noteq> [] \<and> path_exists env q)"
  then have "\<not> backend_available self env" by (simp add: backend_available_iff)
  then show "\<not> used_backend (fst (think self env stimulus))"
    using think_uses_template by blast
qed

theorem think_dispatch_witness:
  "used_backend (fst (think (example_engine (Some ''/model.gguf'') 0)
                        (example_env everything_exists backend_exits_1) ''hi''))
   \<and> \<not> used_template (fst (think (example_engine (Some ''/model.gguf'') 0)
                        (example_env everything_exists backend_exits_1) ''hi''))
   \<and> used_template (fst (think (example_engine None 0)
                        (example_env everything_exists backend_exits_1) ''hi''))"
proof -
  let ?s = "example_engine (Some ''/model.gguf'') 0"
  let ?e = "example_env everything_exists backend_exits_1"
  obtain a where an: "analyze_with_edu_consciousness ?s ''hi'' = Inr a"
    using analyze_total by blast
  have h: "backend_path ?s = Some ''/model.gguf'' \<and> ''/model.gguf'' \<noteq> []
      \<and> path_exists ?e ''/model.gguf''
      \<and> analyze_with_edu_consciousness ?s ''hi'' = Inr a
      \<and> \<not> run_raised (subprocess_run ?e
             (backend_cmd ?s ''/model.gguf'' ''hi''
                (determine_response_strategy a (enhanced_response_suggestions ?e))))"
    using an
    by (simp add: example_engine_fields example_env_def everything_exists_def
        backend_exits_1_def run_raised_def)
  have ex: "\<exists>q. backend_path ?s = Some q \<and> q \<noteq> [] \<and> path_exists ?e q"
    by (simp add: example_engine_fields example_env_def everything_exists_def)
  have nx: "\<not> (\<exists>q. backend_path (example_engine None 0) = Some q \<and> q \<noteq> []
             \<and> path_exists ?e q)"
    by (simp add: example_engine_fields)
  from h think_dispatch [of ?s "''/model.gguf''" ?e "''hi''" a]
  have 1: "used_backend (fst (think ?s ?e ''hi''))" by blast
  from ex think_dispatch [of ?s "''/model.gguf''" ?e "''hi''" a]
  have 2: "\<not> used_template (fst (think ?s ?e ''hi''))" by blast
  from nx think_dispatch [of "example_engine None 0" "''/model.gguf''" ?e "''hi''" a]
  have 3: "used_template (fst (think (example_engine None 0) ?e ''hi''))" by blast
  from 1 2 3 show ?thesis by simp
qed

text \<open>
  The claim as first stated (a configured backend never leads to the templated response)
  fails: an engine configured with the path \<open>/model.gguf\<close>, in a world where that file does
  not exist, answers \<open>hi\<close> with the templated response and reports success.
\<close>

theorem configured_backend_falls_back:
  "backend_path (example_engine (Some ''/model.gguf'') 0) = Some ''/model.gguf''
   \<and> used_template (fst (think (example_engine (Some ''/model.gguf'') 0)
                            (example_env nothing_exists backend_times_out) ''hi''))
   \<and> \<not> used_backend (fst (think (example_engine (Some ''/model.gguf'') 0)
                            (example_env nothing_exists backend_times_out) ''hi''))
   \<and> generate_intelligent_response (example_engine (Some ''/model.gguf'') 0)
        (example_env nothing_exists backend_times_out) ''hi'' base_strategy
      = Inr (ResponseOk (PureEduResponse 1 1 1 0 ''hi'' nascent) ''pure_edu_consciousness'')"
proof -
  let ?s = "example_engine (Some ''/model.gguf'') 0"
  let ?e = "example_env nothing_exists backend_times_out"
  have n: "\<not> backend_available ?s ?e"
    by (simp add: backend_available_def example_engine_fields example_env_def nothing_exists_def)
  have t: "used_template (fst (think ?s ?e ''hi''))" "\<not> used_backend (fst (think ?s ?e ''hi''))"
    using think_uses_template [OF n, of "''hi''"] by simp_all
  have g: "generate_intelligent_response ?s ?e ''hi'' base_strategy
      = Inr (ResponseOk (PureEduResponse 1 1 1 0 ''hi'' nascent) ''pure_edu_consciousness'')"
    by (simp add: dispatch_unavailable [OF n] generate_pure_edu_response_def
        example_engine_fields example_engine_0 base_strategy_def)
  show ?thesis using t g by (simp add: example_engine_fields)
qed

subsection \<open>The manual evolution trigger\<close>

lemma think_template_state:
  assumes "backend_path self = None"
  shows "backend_path (snd (think self env stimulus)) = None"
    and "total_interactions (snd (think self env stimulus)) = total_interactions self + 1"
    and "knowledge_evolution_stage (snd (think self env stimulus)) = knowledge_evolution_stage self"
proof -
  let ?self1 = "self\<lparr>fractal_memory := fractal_memory self @
                     [GetEnhancedResponseSuggestions stimulus]\<rparr>"
  have "\<not> backend_available ?self1 env" using assms by (simp add: backend_available_def)
  then have d: "\<And>strat. generate_intelligent_response ?self1 env stimulus strat =
               Inr (generate_pure_edu_response ?self1 stimulus strat)"
    by (rule dispatch_unavailable)
  show "backend_path (snd (think self env stimulus)) = None"
    using assms
    by (simp add: think_state Let_def d generate_pure_edu_response_def
        update_consciousness_level_fields)
  show "total_interactions (snd (think self env stimulus)) = total_interactions self + 1"
    by (simp add: think_state Let_def d generate_pure_edu_response_def
        update_consciousness_level_fields)
  show "knowledge_evolution_stage (snd (think self env stimulus)) = knowledge_evolution_stage self"
    by (simp add: think_state Let_def d generate_pure_edu_response_def
        update_consciousness_level_fields)
qed

lemma run_thinks:
  assumes "backend_path self = None"
  shows "backend_path (run self (replicate n (Think env stimulus))) = None
       \<and> total_interactions (run self (replicate n (Think env stimulus)))
           = total_interactions self + int n
       \<and> knowledge_evolution_stage (run self (replicate n (Think env stimulus)))
           = knowledge_evolution_stage self"
  using assms
proof (induction n arbitrary: self)
  case 0
  then show ?case by (simp add: run_def)
next
  case (Suc n)
  let ?t = "snd (think self env stimulus)"
  have r: "run self (replicate (Suc n) (Think env stimulus))
             = run ?t (replicate n (Think env stimulus))"
    by (simp add: run_def)
  have b: "backend_path ?t = None" using Suc.prems by (rule think_template_state(1))
  show ?case
    unfolding r using Suc.IH [OF b]
    by (simp add: think_template_state(2,3) [OF Suc.prems])
qed

text \<open>
  The claim as first stated (one trigger never advances the stage by more than one step)
  fails: an engine constructed with no prior interactions and then asked 1000 times
  without a backend is still nascent with a count of 1000, and one trigger takes it to
  transcendent.
\<close>

theorem trigger_skips_stages:
  "knowledge_evolution_stage
     (run (example_engine None 0)
        (replicate 1000 (Think (example_env nothing_exists backend_times_out) ''hi'')))
     = nascent
   \<and> total_interactions
     (run (example_engine None 0)
        (replicate 1000 (Think (example_env nothing_exists backend_times_out) ''hi'')))
     = 1000
   \<and> knowledge_evolution_stage
     (trigger_consciousness_evolution
        (run (example_engine None 0)
           (replicate 1000 (Think (example_env nothing_exists backend_times_out) ''hi'')))
        (stats_with_total 1000))
     = transcendent
   \<and> \<not> stage_rank (knowledge_evolution_stage
     (trigger_consciousness_evolution
        (run (example_engine None 0)
           (replicate 1000 (Think (example_env nothing_exists backend_times_out) ''hi'')))
        (stats_with_total 1000)))
     \<le> stage_rank (knowledge_evolution_stage
        (run (example_engine None 0)
           (replicate 1000 (Think (example_env nothing_exists backend_times_out) ''hi'')))) + 1"
proof -
  let ?s = "run (example_engine None 0)
        (replicate 1000 (Think (example_env nothing_exists backend_times_out) ''hi''))"
  have b: "backend_path (example_engine None 0) = None" by (simp add: example_engine_fields)
  from run_thinks [OF b, of 1000 "example_env nothing_exists backend_times_out" "''hi''"]
  have st: "knowledge_evolution_stage ?s = nascent" and n: "total_interactions ?s = 1000"
    by (simp_all add: example_engine_fields example_engine_0)
  have tr: "knowledge_evolution_stage (trigger_consciousness_evolution ?s (stats_with_total 1000))
          = transcendent"
    by (simp add: trigger_consciousness_evolution_def Let_def update_consciousness_level_fields
        st n)
  show ?thesis unfolding tr st n by simp
qed

text \<open>
  Claim C3, as the code has it. The manual trigger first applies the level update
  (the maximum of the current level and \<open>1 + (w - 1) * 0.5\<close>) and then moves the stage at
  most once: to transcendent from any earlier stage when the count is at least 1000
  (adding 0.5), otherwise from developing to mature when the count is at least 100 (adding
  0.3), otherwise from nascent to developing when the count is at least 10 (adding 0.2),
  otherwise not at all. It never lowers the stage or the level, and it advances the
  stage by at most one step when the count is below 1000 or the stage is already mature
  or transcendent.
\<close>

theorem trigger_consciousness_evolution_spec:
  "total_interactions (trigger_consciousness_evolution self stats) = total_interactions self
   \<and> (1000 \<le> total_interactions self \<and> knowledge_evolution_stage self \<noteq> transcendent \<longrightarrow>
        knowledge_evolution_stage (trigger_consciousness_evolution self stats) = transcendent
        \<and> consciousness_level (trigger_consciousness_evolution self stats) =
            max (consciousness_level self) (1 + (stats_avg_knowledge_weight stats - 1) * 0.5) + 0.5)
   \<and> (100 \<le> total_interactions self \<and> total_interactions self < 1000
        \<and> knowledge_evolution_stage self = developing \<longrightarrow>
        knowledge_evolution_stage (trigger_consciousness_evolution self stats) = mature
        \<and> consciousness_level (trigger_consciousness_evolution self stats) =
            max (consciousness_level self) (1 + (stats_avg_knowledge_weight stats - 1) * 0.5) + 0.3)
   \<and> (10 \<le> total_interactions self \<and> total_interactions self < 1000
        \<and> knowledge_evolution_stage self = nascent \<longrightarrow>
        knowledge_evolution_stage (trigger_consciousness_evolution self stats) = developing
        \<and> consciousness_level (trigger_consciousness_evolution self stats) =
            max (consciousness_level self) (1 + (stats_avg_knowledge_weight stats - 1) * 0.5) + 0.2)
   \<and> (total_interactions self < 10
        \<or> knowledge_evolution_stage self = transcendent
        \<or> (total_interactions self < 1000 \<and> knowledge_evolution_stage self = mature)
        \<or> (total_interactions self < 100 \<and> knowledge_evolution_stage self = developing) \<longrightarrow>
        knowledge_evolution_stage (trigger_consciousness_evolution self stats)
          = knowledge_evolution_stage self
        \<and> consciousness_level (trigger_consciousness_evolution self stats) =
            max (consciousness_level self) (1 + (stats_avg_knowledge_weight stats - 1) * 0.5))
   \<and> consciousness_level self \<le> consciousness_level (trigger_consciousness_evolution self stats)
   \<and> stage_rank (knowledge_evolution_stage self)
        \<le> stage_rank (knowledge_evolution_stage (trigger_consciousness_evolution self stats))
   \<and> (total_interactions self < 1000 \<or> knowledge_evolution_stage self = mature
        \<or> knowledge_evolution_stage self = transcendent \<longrightarrow>
        stage_rank (knowledge_evolution_stage (trigger_consciousness_evolution self stats))
          \<le> stage_rank (knowledge_evolution_stage self) + 1)"
  by (cases "knowledge_evolution_stage self")
     (auto simp: trigger_consciousness_evolution_def Let_def update_consciousness_level_fields
        max_def)

lemma example_engine_10:
  "knowledge_evolution_stage (example_engine b 10) = developing"
  "consciousness_level (example_engine b 10) = 1.5"
  by (simp_all add: example_engine_def EDUAI_init_def initialize_consciousness_def Let_def
      stats_total_interactions_def stats_with_total_def)

lemma stats_with_total_weight: "stats_avg_knowledge_weight (stats_with_total n) = 1"
  by (simp add: stats_avg_knowledge_weight_def stats_with_total_def)

theorem trigger_consciousness_evolution_spec_witness:
  "knowledge_evolution_stage (trigger_consciousness_evolution
       ((example_engine None 0)\<lparr>total_interactions := 1000\<rparr>) (stats_with_total 0)) = transcendent
   \<and> consciousness_level (trigger_consciousness_evolution
       ((example_engine None 0)\<lparr>total_interactions := 1000\<rparr>) (stats_with_total 0)) = 1.5
   \<and> knowledge_evolution_stage (trigger_consciousness_evolution
       ((example_engine None 10)\<lparr>total_interactions := 100\<rparr>) (stats_with_total 0)) = mature
   \<and> consciousness_level (trigger_consciousness_evolution
       ((example_engine None 10)\<lparr>total_interactions := 100\<rparr>) (stats_with_total 0)) = 1.8
   \<and> knowledge_evolution_stage (trigger_consciousness_evolution
       ((example_engine None 0)\<lparr>total_interactions := 10\<rparr>) (stats_with_total 0)) = developing
   \<and> consciousness_level (trigger_consciousness_evolution
       ((example_engine None 0)\<lparr>total_interactions := 10\<rparr>) (stats_with_total 0)) = 1.2
   \<and> knowledge_evolution_stage (trigger_consciousness_evolution
       (example_engine None 0) (stats_with_total 0)) = nascent
   \<and> consciousness_level (trigger_consciousness_evolution
       (example_engine None 0) (stats_with_total 0)) = 1
   \<and> stage_rank (knowledge_evolution_stage (trigger_consciousness_evolution
       ((example_engine None 0)\<lparr>total_interactions := 10\<rparr>) (stats_with_total 0)))
      \<le> stage_rank (knowledge_evolution_stage
            ((example_engine None 0)\<lparr>total_interactions := 10\<rparr>)) + 1"
  using trigger_consciousness_evolution_spec
          [of "(example_engine None 0)\<lparr>total_interactions := 1000\<rparr>" "stats_with_total 0"]
        trigger_consciousness_evolution_spec
          [of "(example_engine None 10)\<lparr>total_interactions := 100\<rparr>" "stats_with_total 0"]
        trigger_consciousness_evolution_spec
          [of "(example_engine None 0)\<lparr>total_interactions := 10\<rparr>" "stats_with_total 0"]
        trigger_consciousness_evolution_spec
          [of "example_engine None 0" "stats_with_total 0"]
  by (simp add: example_engine_fields example_engine_0 example_engine_10 stats_with_total_weight)

lemma example_engine_9:
  "knowledge_evolution_stage (example_engine b 9) = nascent"
  "consciousness_level (example_engine b 9) = 1"
  by (simp_all add: example_engine_def EDUAI_init_def initialize_consciousness_def Let_def
      stats_total_interactions_def stats_with_total_def)

theorem experience_never_regresses_witness:
  "consciousness_level
     (trace (example_engine None 9)
        [Think (example_env nothing_exists backend_times_out) ''hi'',
         Evolve (stats_with_total 0)] ! 0)
   \<le> consciousness_level
     (trace (example_engine None 9)
        [Think (example_env nothing_exists backend_times_out) ''hi'',
         Evolve (stats_with_total 0)] ! 2)
   \<and> stage_rank (knowledge_evolution_stage
     (trace (example_engine None 9)
        [Think (example_env nothing_exists backend_times_out) ''hi'',
         Evolve (stats_with_total 0)] ! 0))
   \<le> stage_rank (knowledge_evolution_stage
     (trace (example_engine None 9)
        [Think (example_env nothing_exists backend_times_out) ''hi'',
         Evolve (stats_with_total 0)] ! 2))
   \<and> knowledge_evolution_stage
     (trace (example_engine None 9)
        [Think (example_env nothing_exists backend_times_out) ''hi'',
         Evolve (stats_with_total 0)] ! 2) = developing"
proof -
  let ?e = "example_env nothing_exists backend_times_out"
  let ?evs = "[Think ?e ''hi'', Evolve (stats_with_total 0)]"
  let ?s = "example_engine None 9"
  have h: "(0::nat) < 2 \<and> 2 \<le> length ?evs" by simp
  from experience_never_regresses [of ?s ?evs] h
  have m: "consciousness_level (trace ?s ?evs ! 0) \<le> consciousness_level (trace ?s ?evs ! 2)
         \<and> stage_rank (knowledge_evolution_stage (trace ?s ?evs ! 0))
             \<le> stage_rank (knowledge_evolution_stage (trace ?s ?evs ! 2))"
    by blast
  have b: "backend_path ?s = None" by (simp add: example_engine_fields)
  have t: "trace ?s ?evs ! 2 = trigger_consciousness_evolution (snd (think ?s ?e ''hi''))
             (stats_with_total 0)"
    by simp
  have d: "knowledge_evolution_stage (trace ?s ?evs ! 2) = developing"
    unfolding t
    by (simp add: trigger_consciousness_evolution_def Let_def update_consciousness_level_fields
        think_template_state [OF b] example_engine_fields example_engine_9)
  from m d show ?thesis by simp
qed

end
